theory Spec2Isabelle
  imports Main
begin

section \<open>JavaScript strings and values\<close>

text \<open>
  Strings are lists of characters, each a code unit below 256; the statement keywords, the
  placeholder character and the connection descriptors are ASCII text.
  An index into a string counts characters from 0, as a JavaScript string offset does.
\<close>

definition backslash :: char where
  "backslash = CHR 0x5C"

definition quote :: char where
  "quote = CHR 0x27"

text \<open>
  The white space that \<open>String.prototype.trim\<close> strips, among the code units below 256:
  tab, line feed, vertical tab, form feed, carriage return, space and the no-break space.
\<close>

definition isWhiteSpace :: "char \<Rightarrow> bool" where
  "isWhiteSpace c =
     (c \<in> set [CHR 0x09, CHR 0x0A, CHR 0x0B, CHR 0x0C, CHR 0x0D, CHR 0x20, CHR 0xA0])"

definition trim :: "string \<Rightarrow> string" where
  "trim s = rev (dropWhile isWhiteSpace (rev (dropWhile isWhiteSpace s)))"

text \<open>
  \<open>toUpperCase\<close> maps each small ASCII letter to its capital. The other characters are
  left in place: JavaScript maps none of them to an ASCII letter but the sharp s, which
  becomes two letters S, so a comparison of the result with \<open>INSERT\<close> is not affected.
\<close>

definition toUpperChar :: "char \<Rightarrow> char" where
  "toUpperChar c =
     (case map_of (zip ''abcdefghijklmnopqrstuvwxyz'' ''ABCDEFGHIJKLMNOPQRSTUVWXYZ'') c of
        None \<Rightarrow> c
      | Some u \<Rightarrow> u)"

definition toUpperCase :: "string \<Rightarrow> string" where
  "toUpperCase s = map toUpperChar s"

definition startsWith :: "string \<Rightarrow> string \<Rightarrow> bool" where
  "startsWith s p = (take (length p) s = p)"

definition includesChar :: "string \<Rightarrow> char \<Rightarrow> bool" where
  "includesChar s c = (c \<in> set s)"

text \<open>\<open>s.split(sep)\<close> for a one-character separator: never empty, \<open>"".split(sep)\<close> is \<open>[""]\<close>.\<close>

fun split :: "char \<Rightarrow> string \<Rightarrow> string list" where
  "split sep [] = [[]]"
| "split sep (c # cs) =
     (if c = sep then [] # split sep cs
      else (case split sep cs of [] \<Rightarrow> [[c]] | p # ps \<Rightarrow> (c # p) # ps))"

text \<open>\<open>xs[i]\<close>: reading past the end of a JavaScript array gives \<open>undefined\<close>, here \<open>None\<close>.\<close>

definition at :: "'a list \<Rightarrow> nat \<Rightarrow> 'a option" where
  "at xs i = (if i < length xs then Some (xs ! i) else None)"

definition digitChar :: "nat \<Rightarrow> char" where
  "digitChar d = ''0123456789'' ! d"

text \<open>The decimal text of a non-negative integer, as a template literal renders it.\<close>

fun string_of_nat :: "nat \<Rightarrow> string" where
  "string_of_nat n =
     (if n < 10 then [digitChar n] else string_of_nat (n div 10) @ [digitChar (n mod 10)])"

declare string_of_nat.simps [simp del]

definition string_of_int :: "int \<Rightarrow> string" where
  "string_of_int i = (if i < 0 then CHR ''-'' # string_of_nat (nat (- i)) else string_of_nat (nat i))"

text \<open>
  The values that cross the adapter: parameters, cells of result rows, option values.
  Numbers are the integers (ports, identity values, row counts).
\<close>

datatype jsval = JUndefined | JNull | JBool bool | JNum int | JStr string

fun truthy :: "jsval \<Rightarrow> bool" where
  "truthy JUndefined = False"
| "truthy JNull = False"
| "truthy (JBool b) = b"
| "truthy (JNum n) = (n \<noteq> 0)"
| "truthy (JStr s) = (s \<noteq> [])"

text \<open>An optional string field is truthy when it is present and not empty.\<close>

fun truthyStr :: "string option \<Rightarrow> bool" where
  "truthyStr None = False"
| "truthyStr (Some s) = (s \<noteq> [])"

text \<open>\<open>String(v)\<close>, what a template literal puts for \<open>${v}\<close>.\<close>

fun toString :: "jsval \<Rightarrow> string" where
  "toString JUndefined = ''undefined''"
| "toString JNull = ''null''"
| "toString (JBool b) = (if b then ''true'' else ''false'')"
| "toString (JNum n) = string_of_int n"
| "toString (JStr s) = s"

text \<open>
  An object literal: its own properties in insertion order. Setting a property that exists
  replaces its value in place, a new one goes to the end; spreading an object into another
  sets each of its properties in turn.
\<close>

type_synonym obj = "(string \<times> jsval) list"

fun setProp :: "string \<Rightarrow> jsval \<Rightarrow> obj \<Rightarrow> obj" where
  "setProp k v [] = [(k, v)]"
| "setProp k v ((k', v') # ps) = (if k = k' then (k, v) # ps else (k', v') # setProp k v ps)"

definition spread :: "obj \<Rightarrow> obj \<Rightarrow> obj" where
  "spread target src = foldl (\<lambda>acc (k, v). setProp k v acc) target src"

definition getProp :: "obj \<Rightarrow> string \<Rightarrow> jsval" where
  "getProp ob k = (case map_of ob k of None \<Rightarrow> JUndefined | Some v \<Rightarrow> v)"

section \<open>Placeholder rewriting of the pooled backend\<close>

text \<open>
  \<open>query.replace(/\?/g, (_, i) => `@param${i}`)\<close>. The replacer of
  \<open>String.prototype.replace\<close> is called with the matched text, then (the pattern has no
  capture group) the offset of the match in the string, then the whole string; so \<open>i\<close> is the
  offset of the \<open>?\<close> in \<open>query\<close>. \<open>replaceFrom off s\<close> rewrites the rest \<open>s\<close> of a query whose
  first character stands at offset \<open>off\<close>.
\<close>

fun replaceFrom :: "nat \<Rightarrow> string \<Rightarrow> string" where
  "replaceFrom off [] = []"
| "replaceFrom off (c # cs) =
     (if c = CHR ''?'' then ''@param'' @ string_of_nat off @ replaceFrom (Suc off) cs
      else c # replaceFrom (Suc off) cs)"

definition replacePlaceholders :: "string \<Rightarrow> string" where
  "replacePlaceholders query = replaceFrom 0 query"

text \<open>
  A request of the pool: the inputs bound by \<open>request.input(name, value)\<close> and the names
  declared by \<open>request.output(name, type, value)\<close>.
\<close>

record request =
  inputs :: "(string \<times> jsval) list"
  outputs :: "string list"

definition newRequest :: request where
  "newRequest = \<lparr>inputs = [], outputs = []\<rparr>"

definition request_input :: "string \<Rightarrow> jsval \<Rightarrow> request \<Rightarrow> request" where
  "request_input name v r = r\<lparr>inputs := inputs r @ [(name, v)]\<rparr>"

definition request_output :: "string \<Rightarrow> request \<Rightarrow> request" where
  "request_output name r = r\<lparr>outputs := outputs r @ [name]\<rparr>"

text \<open>\<open>params.forEach((param, index) => request.input(`param${index}`, param))\<close>\<close>

fun bindFrom :: "nat \<Rightarrow> jsval list \<Rightarrow> request \<Rightarrow> request" where
  "bindFrom index [] r = r"
| "bindFrom index (param # rest) r =
     bindFrom (Suc index) rest (request_input (''param'' @ string_of_nat index) param r)"

definition bindParams :: "jsval list \<Rightarrow> request \<Rightarrow> request" where
  "bindParams params r = bindFrom 0 params r"

section \<open>The two drivers\<close>

text \<open>
  The drivers are external collaborators. Each call is a function from what the adapter
  hands over to what the driver answers: \<open>Inl m\<close> is an error with message \<open>m\<close>.
  The cells of a result row that the adapter reads are those of numeric columns: SQL NULL
  or a number; a column that is absent reads as \<open>undefined\<close>, here \<open>None\<close>.
\<close>

datatype cell = CNull | CNum int

type_synonym row = "(string \<times> cell) list"

text \<open>\<open>v || 0\<close> and \<open>v ? Number(v) : 0\<close> on a cell that may be absent.\<close>

fun truthyCell :: "cell option \<Rightarrow> bool" where
  "truthyCell None = False"
| "truthyCell (Some CNull) = False"
| "truthyCell (Some (CNum n)) = (n \<noteq> 0)"

fun Number :: "cell option \<Rightarrow> int" where
  "Number (Some (CNum n)) = n"
| "Number _ = 0"

text \<open>
  What the native driver hands to the callback (\<open>any[] | any\<close> in the type declaration):
  nothing, a number, an array of rows, or an object with a numeric \<open>rowsAffected\<close>.
\<close>

datatype results = RUndefined | RNumber int | RArray "row list" | RAffected int

datatype pool = Pool nat

record mssqlResult =
  recordset :: "row list option"
  result_output :: row

record config =
  cfg_server :: string
  cfg_database :: string
  cfg_port :: int
  cfg_driver :: "string option"
  cfg_options :: obj
  cfg_user :: "string option"
  cfg_password :: "string option"

record drivers =
  sql_connect :: "config option \<Rightarrow> string + pool"
  pool_query :: "pool \<Rightarrow> request \<Rightarrow> string \<Rightarrow> string + mssqlResult"
  pool_batch :: "pool \<Rightarrow> string \<Rightarrow> string + unit"
  pool_close :: "pool \<Rightarrow> string + unit"
  msnodesqlv8_query :: "string \<Rightarrow> string \<Rightarrow> jsval list option \<Rightarrow> string + results"

text \<open>
  \<open>msnodesqlv8_query cs q None\<close> is the three-argument call \<open>query(cs, q, callback)\<close>,
  \<open>msnodesqlv8_query cs q (Some ps)\<close> the call \<open>query(cs, q, ps, callback)\<close>.
\<close>

section \<open>Construction\<close>

record connectionInfo =
  server :: string
  database :: string
  user :: "string option"
  password :: "string option"
  port :: "int option"
  trustServerCertificate :: "bool option"
  driver :: "string option"
  driverVersion :: "string option"
  options :: "obj option"

text \<open>An absent value in a string concatenation or a template literal reads \<open>undefined\<close>.\<close>

fun strOrUndefined :: "string option \<Rightarrow> string" where
  "strOrUndefined None = ''undefined''"
| "strOrUndefined (Some s) = s"

text \<open>\<open>connectionInfo.port || 1433\<close>\<close>

definition portOrDefault :: "int option \<Rightarrow> int" where
  "portOrDefault p = (case p of None \<Rightarrow> 1433 | Some n \<Rightarrow> if n \<noteq> 0 then n else 1433)"

text \<open>\<open>connectionInfo.driverVersion || "17"\<close>\<close>

definition driverVersionOrDefault :: "string option \<Rightarrow> string" where
  "driverVersionOrDefault v = (if truthyStr v then strOrUndefined v else ''17'')"

text \<open>
  The parse of \<open>SERVER\INSTANCE\<close>: \<open>serverName\<close> and \<open>instanceName\<close>, each possibly
  \<open>undefined\<close>.
\<close>

definition parseServer :: "string \<Rightarrow> string option \<times> string option" where
  "parseServer srv =
     (if includesChar srv backslash
      then (let parts = split backslash srv in (at parts 0, at parts 1))
      else (Some srv, None))"

text \<open>
  The \<open>options\<close> of the pool config:
  \<open>{ trustServerCertificate: connectionInfo.trustServerCertificate ?? true,
      ...(instanceName && { instanceName }), ...connectionInfo.options }\<close>.
\<close>

definition poolOptions :: "connectionInfo \<Rightarrow> string option \<Rightarrow> obj" where
  "poolOptions ci instanceName =
     (let o1 = [(''trustServerCertificate'',
                 JBool (case trustServerCertificate ci of None \<Rightarrow> True | Some b \<Rightarrow> b))];
          o2 = (if truthyStr instanceName
                then spread o1 [(''instanceName'', JStr (strOrUndefined instanceName))] else o1)
      in (case options ci of None \<Rightarrow> o2 | Some extra \<Rightarrow> spread o2 extra))"

text \<open>
  The authentication part, the same in every variant: user and password when both are
  given, else Windows authentication.
\<close>

definition addAuthentication :: "connectionInfo \<Rightarrow> config \<Rightarrow> config" where
  "addAuthentication ci c =
     (if truthyStr (user ci) \<and> truthyStr (password ci)
      then c\<lparr>cfg_user := user ci, cfg_password := password ci\<rparr>
      else c\<lparr>cfg_options :=
              setProp ''enableArithAbort'' (JBool True)
                (setProp ''trustedConnection'' (JBool True) (cfg_options c))\<rparr>)"

text \<open>
  \<open>prepareConnectionString\<close>, the same text in the dual-driver and the native-only variant.
  The extra options are appended in the order of \<open>Object.entries\<close>, here the order of the
  list; keys that read as array indices, which JavaScript lists first, and numbers of 22
  digits or more, which it prints with an exponent, are outside the model.
\<close>

definition prepareConnectionString :: "string \<Rightarrow> connectionInfo \<Rightarrow> string" where
  "prepareConnectionString dv ci =
     (let s0 =
        (if truthyStr (user ci) \<and> truthyStr (password ci)
         then ''Driver={ODBC Driver '' @ dv @ '' for SQL Server};Server='' @ server ci
              @ '';Database='' @ database ci @ '';UID='' @ strOrUndefined (user ci)
              @ '';PWD='' @ strOrUndefined (password ci) @ '';''
         else ''Driver={ODBC Driver '' @ dv @ '' for SQL Server};Server='' @ server ci
              @ '';Database='' @ database ci @ '';Trusted_Connection=Yes;'');
          s1 = (if trustServerCertificate ci = Some True
                then s0 @ ''TrustServerCertificate=Yes;'' else s0);
          s2 = (case port ci of None \<Rightarrow> s1
                | Some n \<Rightarrow> if n \<noteq> 0 then s1 @ ''Port='' @ string_of_int n @ '';'' else s1)
      in (case options ci of None \<Rightarrow> s2
          | Some extra \<Rightarrow> foldl (\<lambda>acc (k, v). acc @ k @ ''='' @ toString v @ '';'') s2 extra))"

section \<open>The dual-driver variant\<close>

record adapter =
  pool :: "pool option"
  config :: "config option"
  connectionString :: string
  this_server :: string
  this_database :: string
  this_user :: "string option"
  this_password :: "string option"
  useNativeDriver :: bool
  this_driverVersion :: string

text \<open>
  The choice of the backend in the constructor. \<open>moduleLoaded\<close> is the truth value of the
  imported \<open>msnodesqlv8\<close> binding; reading it cannot throw, so the \<open>catch\<close> branch of the
  probe is never taken and the field keeps its initial \<open>false\<close> when the binding is falsy.
\<close>

definition selectDriver :: "bool \<Rightarrow> connectionInfo \<Rightarrow> bool" where
  "selectDriver moduleLoaded ci =
     (if driver ci = Some ''msnodesqlv8'' then True
      else if moduleLoaded then True else False)"

definition poolConfig :: "connectionInfo \<Rightarrow> config" where
  "poolConfig ci =
     (let (serverName, instanceName) = parseServer (server ci)
      in addAuthentication ci
           \<lparr>cfg_server = strOrUndefined serverName @ [backslash] @ strOrUndefined instanceName,
            cfg_database = database ci,
            cfg_port = portOrDefault (port ci),
            cfg_driver = None,
            cfg_options = poolOptions ci instanceName,
            cfg_user = None,
            cfg_password = None\<rparr>)"

definition constructor :: "bool \<Rightarrow> connectionInfo \<Rightarrow> adapter" where
  "constructor moduleLoaded ci =
     (let dv = driverVersionOrDefault (driverVersion ci);
          native = selectDriver moduleLoaded ci
      in \<lparr>pool = None,
          config = (if native then None else Some (poolConfig ci)),
          connectionString = (if native then prepareConnectionString dv ci else []),
          this_server = server ci,
          this_database = database ci,
          this_user = user ci,
          this_password = password ci,
          useNativeDriver = native,
          this_driverVersion = dv\<rparr>)"

text \<open>
  A method that rejects returns \<open>Inl m\<close>, \<open>m\<close> the message of the \<open>Error\<close>. A method that
  may assign a field returns the adapter too.
\<close>

definition testConnection :: "drivers \<Rightarrow> adapter \<Rightarrow> string + unit" where
  "testConnection drv a =
     (case msnodesqlv8_query drv (connectionString a) ''SELECT 1 AS TestConnection'' None of
        Inl m \<Rightarrow> Inl m
      | Inr _ \<Rightarrow> Inr ())"

definition dual_init :: "drivers \<Rightarrow> adapter \<Rightarrow> (string + unit) \<times> adapter" where
  "dual_init drv a =
     (if useNativeDriver a then
        (case testConnection drv a of
           Inl m \<Rightarrow> (Inl (''Failed to connect to SQL Server: '' @ m), a)
         | Inr _ \<Rightarrow> (Inr (), a))
      else
        (case sql_connect drv (config a) of
           Inl m \<Rightarrow> (Inl (''Failed to connect to SQL Server: '' @ m), a)
         | Inr p \<Rightarrow> (Inr (), a\<lparr>pool := Some p\<rparr>)))"

definition prepareNativeQuery :: "string \<Rightarrow> jsval list \<Rightarrow> string \<times> jsval list" where
  "prepareNativeQuery query params =
     (if length params = 0 then (query, []) else (query, params))"

text \<open>\<open>results || []\<close>\<close>

fun resultsOrEmpty :: "results \<Rightarrow> results" where
  "resultsOrEmpty RUndefined = RArray []"
| "resultsOrEmpty (RNumber n) = (if n \<noteq> 0 then RNumber n else RArray [])"
| "resultsOrEmpty r = r"

definition allWithNativeDriver :: "drivers \<Rightarrow> adapter \<Rightarrow> string \<Rightarrow> jsval list \<Rightarrow> string + results" where
  "allWithNativeDriver drv a query params =
     (let (preparedQuery, preparedParams) = prepareNativeQuery query params
      in (case msnodesqlv8_query drv (connectionString a) preparedQuery (Some preparedParams) of
            Inl m \<Rightarrow> Inl (''SQL Server query error: '' @ m)
          | Inr res \<Rightarrow> Inr (resultsOrEmpty res)))"

text \<open>\<open>result.recordset\<close>, which the pool leaves \<open>undefined\<close> when there is no row set.\<close>

definition recordsetResults :: "mssqlResult \<Rightarrow> results" where
  "recordsetResults r = (case recordset r of None \<Rightarrow> RUndefined | Some rows \<Rightarrow> RArray rows)"

definition allWithMssql :: "drivers \<Rightarrow> adapter \<Rightarrow> string \<Rightarrow> jsval list \<Rightarrow> string + results" where
  "allWithMssql drv a query params =
     (case pool a of
        None \<Rightarrow> Inl ''Database not initialized''
      | Some p \<Rightarrow>
          (let request = bindParams params newRequest;
               preparedQuery = replacePlaceholders query
           in (case pool_query drv p request preparedQuery of
                 Inl m \<Rightarrow> Inl (''SQL Server query error: '' @ m)
               | Inr result \<Rightarrow> Inr (recordsetResults result))))"

definition dual_all :: "drivers \<Rightarrow> adapter \<Rightarrow> string \<Rightarrow> jsval list \<Rightarrow> string + results" where
  "dual_all drv a query params =
     (if useNativeDriver a then allWithNativeDriver drv a query params
      else allWithMssql drv a query params)"

record runResult =
  changes :: int
  lastID :: int

text \<open>\<open>query.trim().toUpperCase().startsWith("INSERT")\<close>\<close>

definition isInsert :: "string \<Rightarrow> bool" where
  "isInsert query = startsWith (toUpperCase (trim query)) ''INSERT''"

text \<open>
  The identity value read in the callback of an \<open>INSERT\<close>: the \<open>LastID\<close> of the final
  element when the results are a non-empty array and that cell is truthy, else 0.
\<close>

definition extractLastID :: "results \<Rightarrow> int" where
  "extractLastID res =
     (case res of
        RArray rows \<Rightarrow>
          (if length rows > 0 \<and> truthyCell (map_of (last rows) ''LastID'')
           then Number (map_of (last rows) ''LastID'') else 0)
      | _ \<Rightarrow> 0)"

text \<open>The affected rows read in the callback of a statement that is not an \<open>INSERT\<close>.\<close>

fun resultChanges :: "results \<Rightarrow> int" where
  "resultChanges (RNumber n) = n"
| "resultChanges (RAffected n) = n"
| "resultChanges _ = 0"

definition runWithNativeDriver :: "drivers \<Rightarrow> adapter \<Rightarrow> string \<Rightarrow> jsval list \<Rightarrow> string + runResult" where
  "runWithNativeDriver drv a query params =
     (if isInsert query then
        (let modifiedQuery = query @ ''; SELECT SCOPE_IDENTITY() AS LastID'';
             (preparedQuery, preparedParams) = prepareNativeQuery modifiedQuery params
         in (case msnodesqlv8_query drv (connectionString a) preparedQuery (Some preparedParams) of
               Inl m \<Rightarrow> Inl (''SQL Server query error: '' @ m)
             | Inr res \<Rightarrow>
                 (let lid = extractLastID res
                  in Inr \<lparr>changes = (if lid > 0 then 1 else 0), lastID = lid\<rparr>)))
      else
        (let (preparedQuery, preparedParams) = prepareNativeQuery query params
         in (case msnodesqlv8_query drv (connectionString a) preparedQuery (Some preparedParams) of
               Inl m \<Rightarrow> Inl (''SQL Server query error: '' @ m)
             | Inr res \<Rightarrow> Inr \<lparr>changes = resultChanges res, lastID = 0\<rparr>)))"

text \<open>\<open>query.trim().split(" ")[0].toUpperCase()\<close>; a split is never empty.\<close>

definition queryType :: "string \<Rightarrow> string" where
  "queryType query = toUpperCase (hd (split CHR '' '' (trim query)))"

definition getAffectedRows :: "string \<Rightarrow> int \<Rightarrow> int" where
  "getAffectedRows query lid = (if queryType query = ''INSERT'' \<and> lid > 0 then 1 else 0)"

text \<open>\<open>result.output.insertedId || 0\<close>\<close>

definition insertedIdOrZero :: "mssqlResult \<Rightarrow> int" where
  "insertedIdOrZero result =
     (if truthyCell (map_of (result_output result) ''insertedId'')
      then Number (map_of (result_output result) ''insertedId'') else 0)"

definition runWithMssql :: "drivers \<Rightarrow> adapter \<Rightarrow> string \<Rightarrow> jsval list \<Rightarrow> string + runResult" where
  "runWithMssql drv a query params =
     (case pool a of
        None \<Rightarrow> Inl ''Database not initialized''
      | Some p \<Rightarrow>
          (let request = bindParams params newRequest;
               preparedQuery = replacePlaceholders query
           in if isInsert query then
                (let request' = request_output ''insertedId'' request;
                     updatedQuery = preparedQuery @ ''; SELECT @insertedId = SCOPE_IDENTITY();''
                 in (case pool_query drv p request' updatedQuery of
                       Inl m \<Rightarrow> Inl (''SQL Server query error: '' @ m)
                     | Inr result \<Rightarrow>
                         (let lid = insertedIdOrZero result
                          in Inr \<lparr>changes = getAffectedRows query lid, lastID = lid\<rparr>)))
              else
                (case pool_query drv p request preparedQuery of
                   Inl m \<Rightarrow> Inl (''SQL Server query error: '' @ m)
                 | Inr result \<Rightarrow> Inr \<lparr>changes = getAffectedRows query 0, lastID = 0\<rparr>)))"

definition dual_run :: "drivers \<Rightarrow> adapter \<Rightarrow> string \<Rightarrow> jsval list \<Rightarrow> string + runResult" where
  "dual_run drv a query params =
     (if useNativeDriver a then runWithNativeDriver drv a query params
      else runWithMssql drv a query params)"

definition execWithNativeDriver :: "drivers \<Rightarrow> adapter \<Rightarrow> string \<Rightarrow> string + unit" where
  "execWithNativeDriver drv a query =
     (case msnodesqlv8_query drv (connectionString a) query None of
        Inl m \<Rightarrow> Inl (''SQL Server batch error: '' @ m)
      | Inr _ \<Rightarrow> Inr ())"

definition execWithMssql :: "drivers \<Rightarrow> adapter \<Rightarrow> string \<Rightarrow> string + unit" where
  "execWithMssql drv a query =
     (case pool a of
        None \<Rightarrow> Inl ''Database not initialized''
      | Some p \<Rightarrow>
          (case pool_batch drv p query of
             Inl m \<Rightarrow> Inl (''SQL Server batch error: '' @ m)
           | Inr _ \<Rightarrow> Inr ()))"

definition dual_exec :: "drivers \<Rightarrow> adapter \<Rightarrow> string \<Rightarrow> string + unit" where
  "dual_exec drv a query =
     (if useNativeDriver a then execWithNativeDriver drv a query
      else execWithMssql drv a query)"

text \<open>A pool whose \<open>close\<close> rejects stays in its field, and \<open>close\<close> rejects with that error.\<close>

definition dual_close :: "drivers \<Rightarrow> adapter \<Rightarrow> (string + unit) \<times> adapter" where
  "dual_close drv a =
     (if useNativeDriver a then (Inr (), a)
      else (case pool a of
              None \<Rightarrow> (Inr (), a)
            | Some p \<Rightarrow>
                (case pool_close drv p of
                   Inl m \<Rightarrow> (Inl m, a)
                 | Inr _ \<Rightarrow> (Inr (), a\<lparr>pool := None\<rparr>))))"

section \<open>The native-only variant\<close>

text \<open>
  The variant with the direct backend alone. Its constructor builds the connection string
  with the same \<open>prepareConnectionString\<close>; its \<open>run\<close> has the body of \<open>runWithNativeDriver\<close>.
\<close>

record nativeAdapter =
  n_connectionString :: string
  n_server :: string
  n_database :: string
  n_user :: "string option"
  n_password :: "string option"
  n_driverVersion :: string

definition native_constructor :: "connectionInfo \<Rightarrow> nativeAdapter" where
  "native_constructor ci =
     (let dv = driverVersionOrDefault (driverVersion ci)
      in \<lparr>n_connectionString = prepareConnectionString dv ci,
          n_server = server ci,
          n_database = database ci,
          n_user = user ci,
          n_password = password ci,
          n_driverVersion = dv\<rparr>)"

definition prepareQuery :: "string \<Rightarrow> jsval list \<Rightarrow> string \<times> jsval list" where
  "prepareQuery query params =
     (if length params = 0 then (query, []) else (query, params))"

definition native_all :: "drivers \<Rightarrow> nativeAdapter \<Rightarrow> string \<Rightarrow> jsval list \<Rightarrow> string + results" where
  "native_all drv a query params =
     (let (preparedQuery, preparedParams) = prepareQuery query params
      in (case msnodesqlv8_query drv (n_connectionString a) preparedQuery (Some preparedParams) of
            Inl m \<Rightarrow> Inl (''SQL Server query error: '' @ m)
          | Inr res \<Rightarrow> Inr (resultsOrEmpty res)))"

definition native_run :: "drivers \<Rightarrow> nativeAdapter \<Rightarrow> string \<Rightarrow> jsval list \<Rightarrow> string + runResult" where
  "native_run drv a query params =
     (if isInsert query then
        (let modifiedQuery = query @ ''; SELECT SCOPE_IDENTITY() AS LastID'';
             (preparedQuery, preparedParams) = prepareQuery modifiedQuery params
         in (case msnodesqlv8_query drv (n_connectionString a) preparedQuery (Some preparedParams) of
               Inl m \<Rightarrow> Inl (''SQL Server query error: '' @ m)
             | Inr res \<Rightarrow>
                 (let lid = extractLastID res
                  in Inr \<lparr>changes = (if lid > 0 then 1 else 0), lastID = lid\<rparr>)))
      else
        (let (preparedQuery, preparedParams) = prepareQuery query params
         in (case msnodesqlv8_query drv (n_connectionString a) preparedQuery (Some preparedParams) of
               Inl m \<Rightarrow> Inl (''SQL Server query error: '' @ m)
             | Inr res \<Rightarrow> Inr \<lparr>changes = resultChanges res, lastID = 0\<rparr>)))"

definition native_exec :: "drivers \<Rightarrow> nativeAdapter \<Rightarrow> string \<Rightarrow> string + unit" where
  "native_exec drv a query =
     (case msnodesqlv8_query drv (n_connectionString a) query None of
        Inl m \<Rightarrow> Inl (''SQL Server batch error: '' @ m)
      | Inr _ \<Rightarrow> Inr ())"

definition native_close :: "drivers \<Rightarrow> nativeAdapter \<Rightarrow> (string + unit) \<times> nativeAdapter" where
  "native_close drv a = (Inr (), a)"

section \<open>The chained-fallback variant (CommonJS)\<close>

record cjsAdapter =
  cjs_pool :: "pool option"
  usingDirectConnection :: bool
  cjs_config :: config
  directConnectionString :: string
  cjs_server :: string
  cjs_database :: string
  cjs_user :: "string option"
  cjs_password :: "string option"

definition cjs_poolConfig :: "connectionInfo \<Rightarrow> config" where
  "cjs_poolConfig ci =
     (let (serverName, instanceName) = parseServer (server ci)
      in addAuthentication ci
           \<lparr>cfg_server = strOrUndefined serverName,
            cfg_database = database ci,
            cfg_port = portOrDefault (port ci),
            cfg_driver = Some ''msnodesqlv8'',
            cfg_options = poolOptions ci instanceName,
            cfg_user = None,
            cfg_password = None\<rparr>)"

definition cjs_directConnectionString :: "connectionInfo \<Rightarrow> string" where
  "cjs_directConnectionString ci =
     (if truthyStr (user ci) \<and> truthyStr (password ci)
      then ''Driver={ODBC Driver 17 for SQL Server};Server='' @ server ci
           @ '';Database='' @ database ci @ '';UID='' @ strOrUndefined (user ci)
           @ '';PWD='' @ strOrUndefined (password ci) @ '';''
      else ''Driver={ODBC Driver 17 for SQL Server};Server='' @ server ci
           @ '';Database='' @ database ci @ '';Trusted_Connection=Yes;'')"

text \<open>The field \<open>usingDirectConnection\<close> is not assigned by the constructor: it reads falsy.\<close>

definition cjs_constructor :: "connectionInfo \<Rightarrow> cjsAdapter" where
  "cjs_constructor ci =
     \<lparr>cjs_pool = None,
      usingDirectConnection = False,
      cjs_config = cjs_poolConfig ci,
      directConnectionString = cjs_directConnectionString ci,
      cjs_server = server ci,
      cjs_database = database ci,
      cjs_user = user ci,
      cjs_password = password ci\<rparr>"

text \<open>Each connection attempt also reports the driver calls it made, in order.\<close>

datatype call = SqlConnect config | Msnodesqlv8Query string string

definition connectWithMssql :: "drivers \<Rightarrow> cjsAdapter \<Rightarrow> (string + bool) \<times> cjsAdapter \<times> call list" where
  "connectWithMssql drv a =
     (case sql_connect drv (Some (cjs_config a)) of
        Inl m \<Rightarrow> (Inl m, a, [SqlConnect (cjs_config a)])
      | Inr p \<Rightarrow> (Inr True, a\<lparr>cjs_pool := Some p\<rparr>, [SqlConnect (cjs_config a)]))"

definition connectWithMsnodesqlv8 :: "drivers \<Rightarrow> cjsAdapter \<Rightarrow> (string + bool) \<times> cjsAdapter \<times> call list" where
  "connectWithMsnodesqlv8 drv a =
     (let q = ''SELECT @@VERSION AS Version'';
          calls = [Msnodesqlv8Query (directConnectionString a) q]
      in (case msnodesqlv8_query drv (directConnectionString a) q None of
            Inl m \<Rightarrow> (Inl m, a, calls)
          | Inr _ \<Rightarrow> (Inr True, a\<lparr>usingDirectConnection := True\<rparr>, calls)))"

definition cjs_init :: "drivers \<Rightarrow> cjsAdapter \<Rightarrow> (string + unit) \<times> cjsAdapter \<times> call list" where
  "cjs_init drv a =
     (case connectWithMssql drv a of
        (Inr _, a1, calls1) \<Rightarrow> (Inr (), a1, calls1)
      | (Inl _, a1, calls1) \<Rightarrow>
          (case connectWithMsnodesqlv8 drv a1 of
             (Inr _, a2, calls2) \<Rightarrow> (Inr (), a2, calls1 @ calls2)
           | (Inl m, a2, calls2) \<Rightarrow>
               (Inl (''Failed to connect to SQL Server: '' @ m), a2, calls1 @ calls2)))"

definition allDirect :: "drivers \<Rightarrow> cjsAdapter \<Rightarrow> string \<Rightarrow> jsval list \<Rightarrow> string + results" where
  "allDirect drv a query params =
     (case msnodesqlv8_query drv (directConnectionString a) query None of
        Inl m \<Rightarrow> Inl (''SQL Server direct query error: '' @ m)
      | Inr res \<Rightarrow> Inr res)"

definition cjs_all :: "drivers \<Rightarrow> cjsAdapter \<Rightarrow> string \<Rightarrow> jsval list \<Rightarrow> string + results" where
  "cjs_all drv a query params =
     (if cjs_pool a = None \<and> \<not> usingDirectConnection a then Inl ''Database not initialized''
      else if usingDirectConnection a then allDirect drv a query params
      else (case cjs_pool a of
              None \<Rightarrow> Inl ''Database not initialized''
            | Some p \<Rightarrow>
                (let request = bindParams params newRequest;
                     preparedQuery = replacePlaceholders query
                 in (case pool_query drv p request preparedQuery of
                       Inl m \<Rightarrow> Inl (''SQL Server query error: '' @ m)
                     | Inr result \<Rightarrow> Inr (recordsetResults result)))))"

definition cjs_close :: "drivers \<Rightarrow> cjsAdapter \<Rightarrow> (string + unit) \<times> cjsAdapter" where
  "cjs_close drv a =
     (case cjs_pool a of
        None \<Rightarrow> (Inr (), a\<lparr>usingDirectConnection := False\<rparr>)
      | Some p \<Rightarrow>
          (case pool_close drv p of
             Inl m \<Rightarrow> (Inl m, a)
           | Inr _ \<Rightarrow> (Inr (), a\<lparr>cjs_pool := None, usingDirectConnection := False\<rparr>)))"

section \<open>Schema-introspection helpers\<close>

definition getListTablesQuery :: string where
  "getListTablesQuery =
     ''SELECT TABLE_NAME as name FROM INFORMATION_SCHEMA.TABLES WHERE TABLE_TYPE = 'BASE TABLE' ORDER BY TABLE_NAME''"

text \<open>
  \<open>getDescribeTableQuery\<close> returns a template literal with one hole, \<open>${tableName}\<close>,
  between single quotes. \<open>describePrefix\<close> is the text up to the opening quote,
  \<open>describeSuffix\<close> the text after the closing one; both variants in TypeScript have the
  same template.
\<close>

definition describePrefix :: string where
  "describePrefix =
     ''\<newline>''
     @ ''      SELECT \<newline>''
     @ ''        c.COLUMN_NAME as name,\<newline>''
     @ ''        c.DATA_TYPE as type,\<newline>''
     @ ''        CASE WHEN c.IS_NULLABLE = 'YES' THEN 1 ELSE 0 END as notnull,\<newline>''
     @ ''        CASE WHEN pk.CONSTRAINT_TYPE = 'PRIMARY KEY' THEN 1 ELSE 0 END as pk,\<newline>''
     @ ''        c.COLUMN_DEFAULT as dflt_value\<newline>''
     @ ''      FROM \<newline>''
     @ ''        INFORMATION_SCHEMA.COLUMNS c\<newline>''
     @ ''      LEFT JOIN \<newline>''
     @ ''        INFORMATION_SCHEMA.KEY_COLUMN_USAGE kcu ON c.TABLE_NAME = kcu.TABLE_NAME AND c.COLUMN_NAME = kcu.COLUMN_NAME\<newline>''
     @ ''      LEFT JOIN \<newline>''
     @ ''        INFORMATION_SCHEMA.TABLE_CONSTRAINTS pk ON kcu.CONSTRAINT_NAME = pk.CONSTRAINT_NAME AND pk.CONSTRAINT_TYPE = 'PRIMARY KEY'\<newline>''
     @ ''      WHERE \<newline>''
     @ ''        c.TABLE_NAME = ''"

definition describeSuffix :: string where
  "describeSuffix =
     ''\<newline>''
     @ ''      ORDER BY \<newline>''
     @ ''        c.ORDINAL_POSITION\<newline>''
     @ ''    ''"

definition getDescribeTableQuery :: "string \<Rightarrow> string" where
  "getDescribeTableQuery tableName =
     describePrefix @ [quote] @ tableName @ [quote] @ describeSuffix"

section \<open>Sequences of calls\<close>

text \<open>
  A caller uses an adapter of the dual-driver variant through its five asynchronous
  methods, one call after the other. Each call meets the drivers as they answer at that
  moment, so a history is a list of calls, each with its drivers. Only \<open>init\<close> and
  \<open>close\<close> assign fields.
\<close>

datatype op = Init | All string "jsval list" | Run string "jsval list" | Exec string | Close

fun dual_step :: "drivers \<times> op \<Rightarrow> adapter \<Rightarrow> adapter" where
  "dual_step (drv, Init) a = snd (dual_init drv a)"
| "dual_step (drv, Close) a = snd (dual_close drv a)"
| "dual_step (drv, All q ps) a = a"
| "dual_step (drv, Run q ps) a = a"
| "dual_step (drv, Exec q) a = a"

definition dual_steps :: "(drivers \<times> op) list \<Rightarrow> adapter \<Rightarrow> adapter" where
  "dual_steps history a = fold dual_step history a"

section \<open>Sample inputs\<close>

text \<open>Connection parameters that give only the two required fields.\<close>

definition sampleInfo :: connectionInfo where
  "sampleInfo =
     \<lparr>server = ''HOST'', database = ''master'', user = None, password = None, port = None,
      trustServerCertificate = None, driver = None, driverVersion = None, options = None\<rparr>"

text \<open>
  Drivers that answer every call of a kind the same way: \<open>c\<close> to a connection attempt,
  \<open>q\<close> to a query on the pool, \<open>n ps\<close> to a native query handed the parameters \<open>ps\<close>.
\<close>

definition stubDrivers ::
  "(string + pool) \<Rightarrow> (string + mssqlResult) \<Rightarrow> (jsval list option \<Rightarrow> string + results) \<Rightarrow> drivers" where
  "stubDrivers c q n =
     \<lparr>sql_connect = (\<lambda>_. c),
      pool_query = (\<lambda>_ _ _. q),
      pool_batch = (\<lambda>_ _. Inr ()),
      pool_close = (\<lambda>_. Inr ()),
      msnodesqlv8_query = (\<lambda>_ _ ps. n ps)\<rparr>"

text \<open>A native driver that reports how many parameters it was handed, if any.\<close>

definition countParams :: "jsval list option \<Rightarrow> string + results" where
  "countParams ps = (case ps of None \<Rightarrow> Inr RUndefined | Some xs \<Rightarrow> Inr (RNumber (int (length xs))))"

text \<open>An \<open>INSERT\<close> whose keyword is followed by a tab, not a space.\<close>

definition tabInsert :: string where
  "tabInsert = ''INSERT'' @ [CHR 0x09] @ ''INTO t DEFAULT VALUES''"

text \<open>
  Drivers whose pooled connection succeeds, and drivers whose pooled connection times out;
  the native driver of both answers an empty array.
\<close>

definition poolUp :: drivers where
  "poolUp = stubDrivers (Inr (Pool 1)) (Inl []) (\<lambda>_. Inr (RArray []))"

definition poolDown :: drivers where
  "poolDown = stubDrivers (Inl ''ETIMEOUT'') (Inl []) (\<lambda>_. Inr (RArray []))"

text \<open>An adapter of the dual-driver variant on the pooled backend, after \<open>init\<close>.\<close>

definition pooledReady :: adapter where
  "pooledReady = snd (dual_init poolUp (constructor False sampleInfo))"

text \<open>An adapter of the chained-fallback variant after an \<open>init\<close> that fell back.\<close>

definition fallenBack :: cjsAdapter where
  "fallenBack = fst (snd (cjs_init poolDown (cjs_constructor sampleInfo)))"

section \<open>Placeholders and bound names\<close>

lemma replaceFrom_append:
  "replaceFrom off (xs @ ys) = replaceFrom off xs @ replaceFrom (off + length xs) ys"
  by (induction xs arbitrary: off) auto

text \<open>
  The placeholder that follows a text \<open>pre\<close> is rewritten to \<open>@param\<close> and the length of
  \<open>pre\<close>: its offset, not its rank among the placeholders.
\<close>

lemma replacePlaceholders_offset:
  "replacePlaceholders (pre @ CHR ''?'' # rest)
     = replacePlaceholders pre @ ''@param'' @ string_of_nat (length pre)
       @ replaceFrom (Suc (length pre)) rest"
  by (simp add: replacePlaceholders_def replaceFrom_append)

text \<open>The values are bound in order under \<open>param0\<close>, \<open>param1\<close>, and so on.\<close>

lemma bindFrom_inputs:
  "inputs (bindFrom k ps r)
     = inputs r @ map (\<lambda>(i, v). (''param'' @ string_of_nat i, v)) (zip [k..<k + length ps] ps)"
proof (induction ps arbitrary: k r)
  case Nil
  then show ?case by simp
next
  case (Cons p ps)
  have "[k..<k + length (p # ps)] = k # [Suc k..<Suc k + length ps]"
    by (simp add: upt_rec)
  then show ?case
    using Cons.IH [of "Suc k"] by (simp add: request_input_def)
qed

lemma bindParams_inputs:
  "inputs (bindParams ps newRequest)
     = map (\<lambda>(i, v). (''param'' @ string_of_nat i, v)) (zip [0..<length ps] ps)"
  by (simp add: bindParams_def bindFrom_inputs newRequest_def)

lemma replacePlaceholders_select:
  "replacePlaceholders ''SELECT ? AS V'' = ''SELECT @param7 AS V''"
  by (simp add: replacePlaceholders_def string_of_nat.simps digitChar_def)

lemma bindParams_single:
  "bindParams [JNum 42] newRequest = \<lparr>inputs = [(''param0'', JNum 42)], outputs = []\<rparr>"
  by (simp add: bindParams_def newRequest_def request_input_def string_of_nat.simps digitChar_def)

text \<open>
  C1. The claim: with N placeholders and N values the pooled backend sends a query that
  names \<open>@param0\<close> to \<open>@param(N-1)\<close> in placeholder order, the i-th name being the one the
  i-th value was bound under. The code at \<open>all("SELECT ? AS V", [42])\<close> on an initialized
  pool: the value is bound under \<open>param0\<close>, and the query sent names \<open>@param7\<close>, the offset
  of the placeholder in the text.
\<close>

theorem allWithMssql_names_offset:
  "allWithMssql drv (a\<lparr>pool := Some p\<rparr>) ''SELECT ? AS V'' [JNum 42]
     = (case pool_query drv p \<lparr>inputs = [(''param0'', JNum 42)], outputs = []\<rparr>
               ''SELECT @param7 AS V'' of
          Inl m \<Rightarrow> Inl (''SQL Server query error: '' @ m)
        | Inr result \<Rightarrow> Inr (recordsetResults result))"
  by (simp add: allWithMssql_def replacePlaceholders_select bindParams_single)

section \<open>Construction of the pool config\<close>

text \<open>
  C10. In the dual-driver variant, when the pooled backend is selected and the server
  string has no backslash, the server field of the pool config is the server string,
  a backslash and the text \<open>undefined\<close>.
\<close>

theorem constructor_server_undefined:
  assumes "\<not> selectDriver moduleLoaded ci"
    and "\<not> includesChar (server ci) backslash"
  shows "map_option cfg_server (config (constructor moduleLoaded ci))
           = Some (server ci @ [backslash] @ ''undefined'')"
  using assms
  by (simp add: constructor_def poolConfig_def parseServer_def addAuthentication_def)

theorem constructor_server_undefined_witness:
  "\<not> selectDriver False sampleInfo
   \<and> \<not> includesChar (server sampleInfo) backslash
   \<and> map_option cfg_server (config (constructor False sampleInfo))
        = Some (''HOST'' @ [CHR 0x5C] @ ''undefined'')"
  using constructor_server_undefined [of False sampleInfo]
  by (simp add: selectDriver_def sampleInfo_def includesChar_def backslash_def)

section \<open>The introspection queries\<close>

text \<open>
  C9. \<open>getListTablesQuery\<close> and \<open>getDescribeTableQuery\<close> are functions of their arguments
  alone: the first is one fixed text, the second is a fixed text, the table name as given,
  and a fixed text, the name standing between two single quotes with no character of it
  changed; so equal names give equal texts and different names different texts.
\<close>

theorem introspection_queries_fixed:
  "getListTablesQuery
     = ''SELECT TABLE_NAME as name FROM INFORMATION_SCHEMA.TABLES WHERE TABLE_TYPE = 'BASE TABLE' ORDER BY TABLE_NAME''
   \<and> getDescribeTableQuery tableName
       = describePrefix @ [quote] @ tableName @ [quote] @ describeSuffix
   \<and> (getDescribeTableQuery t = getDescribeTableQuery t' \<longleftrightarrow> t = t')"
  apply (intro conjI)
    apply (simp add: getListTablesQuery_def)
   apply (simp add: getDescribeTableQuery_def)
  apply (simp add: getDescribeTableQuery_def)
  done

section \<open>Connection with fallback\<close>

text \<open>
  C7. In the chained-fallback variant \<open>init\<close> tries the pooled connection first. If it
  succeeds, \<open>init\<close> succeeds and the direct driver is not called. If it fails, \<open>init\<close> probes
  the direct driver: it succeeds when the probe succeeds, and rejects with
  \<open>Failed to connect to SQL Server:\<close> and the direct attempt's message when the probe fails
  too. So \<open>init\<close> rejects exactly when both attempts fail.
\<close>

theorem cjs_init_fallback:
  "(sql_connect drv (Some (cjs_config a)) = Inr p \<longrightarrow>
      cjs_init drv a = (Inr (), a\<lparr>cjs_pool := Some p\<rparr>, [SqlConnect (cjs_config a)]))
   \<and> (sql_connect drv (Some (cjs_config a)) = Inl e
        \<and> msnodesqlv8_query drv (directConnectionString a) ''SELECT @@VERSION AS Version'' None = Inr res \<longrightarrow>
      cjs_init drv a
        = (Inr (), a\<lparr>usingDirectConnection := True\<rparr>,
           [SqlConnect (cjs_config a),
            Msnodesqlv8Query (directConnectionString a) ''SELECT @@VERSION AS Version'']))
   \<and> (sql_connect drv (Some (cjs_config a)) = Inl e
        \<and> msnodesqlv8_query drv (directConnectionString a) ''SELECT @@VERSION AS Version'' None = Inl m \<longrightarrow>
      cjs_init drv a
        = (Inl (''Failed to connect to SQL Server: '' @ m), a,
           [SqlConnect (cjs_config a),
            Msnodesqlv8Query (directConnectionString a) ''SELECT @@VERSION AS Version'']))
   \<and> (isl (fst (cjs_init drv a)) \<longleftrightarrow>
        isl (sql_connect drv (Some (cjs_config a)))
        \<and> isl (msnodesqlv8_query drv (directConnectionString a) ''SELECT @@VERSION AS Version'' None))"
  by (auto simp add: cjs_init_def connectWithMssql_def connectWithMsnodesqlv8_def Let_def
      split: sum.splits)

theorem cjs_init_fallback_witness:
  "sql_connect (stubDrivers (Inr (Pool 1)) (Inl []) (\<lambda>_. Inl ''Login failed''))
       (Some (cjs_config (cjs_constructor sampleInfo))) = Inr (Pool 1)
   \<and> cjs_init (stubDrivers (Inr (Pool 1)) (Inl []) (\<lambda>_. Inl ''Login failed'')) (cjs_constructor sampleInfo)
       = (Inr (), (cjs_constructor sampleInfo)\<lparr>cjs_pool := Some (Pool 1)\<rparr>,
          [SqlConnect (cjs_config (cjs_constructor sampleInfo))])
   \<and> sql_connect (stubDrivers (Inl ''ETIMEOUT'') (Inl []) (\<lambda>_. Inr (RArray [])))
       (Some (cjs_config (cjs_constructor sampleInfo))) = Inl ''ETIMEOUT''
   \<and> fst (cjs_init (stubDrivers (Inl ''ETIMEOUT'') (Inl []) (\<lambda>_. Inr (RArray []))) (cjs_constructor sampleInfo))
       = Inr ()
   \<and> fst (cjs_init (stubDrivers (Inl ''ETIMEOUT'') (Inl []) (\<lambda>_. Inl ''Login failed'')) (cjs_constructor sampleInfo))
       = Inl ''Failed to connect to SQL Server: Login failed''"
  using cjs_init_fallback [of "stubDrivers (Inr (Pool 1)) (Inl []) (\<lambda>_. Inl ''Login failed'')"
      "cjs_constructor sampleInfo" "Pool 1" "''ETIMEOUT''" "RArray []" "''Login failed''"]
    cjs_init_fallback [of "stubDrivers (Inl ''ETIMEOUT'') (Inl []) (\<lambda>_. Inr (RArray []))"
      "cjs_constructor sampleInfo" "Pool 1" "''ETIMEOUT''" "RArray []" "''Login failed''"]
    cjs_init_fallback [of "stubDrivers (Inl ''ETIMEOUT'') (Inl []) (\<lambda>_. Inl ''Login failed'')"
      "cjs_constructor sampleInfo" "Pool 1" "''ETIMEOUT''" "RArray []" "''Login failed''"]
  by (simp add: stubDrivers_def)

section \<open>The direct path and the parameters\<close>

text \<open>
  C4, as the claim states it, fails in the chained-fallback variant: \<open>allDirect\<close> calls the
  driver with the connection string, the query and the callback only. A native driver that
  counts the parameters it is handed receives none from \<open>allDirect\<close>, and one from the
  native-only \<open>all\<close>, for the same call.
\<close>

theorem allDirect_drops_params:
  "allDirect (stubDrivers (Inl []) (Inl []) countParams) (cjs_constructor sampleInfo)
       ''SELECT ? AS V'' [JNum 42] = Inr RUndefined
   \<and> native_all (stubDrivers (Inl []) (Inl []) countParams) (native_constructor sampleInfo)
       ''SELECT ? AS V'' [JNum 42] = Inr (RNumber 1)"
  by (simp add: allDirect_def native_all_def prepareQuery_def stubDrivers_def countParams_def)

text \<open>
  C4, amended. In the dual-driver and the native-only variant the prepare step returns the
  query text and the parameter array as given (an empty array for an empty one), and \<open>all\<close>
  hands exactly these to the native driver. In the chained-fallback variant \<open>allDirect\<close>
  hands the query text to the driver unchanged, and no parameter array.
\<close>

theorem direct_path_forwarding:
  "prepareQuery query params = (query, params)
   \<and> prepareNativeQuery query params = (query, params)
   \<and> native_all drv na query params
       = (case msnodesqlv8_query drv (n_connectionString na) query (Some params) of
            Inl m \<Rightarrow> Inl (''SQL Server query error: '' @ m)
          | Inr res \<Rightarrow> Inr (resultsOrEmpty res))
   \<and> allWithNativeDriver drv a query params
       = (case msnodesqlv8_query drv (connectionString a) query (Some params) of
            Inl m \<Rightarrow> Inl (''SQL Server query error: '' @ m)
          | Inr res \<Rightarrow> Inr (resultsOrEmpty res))
   \<and> allDirect drv ca query params
       = (case msnodesqlv8_query drv (directConnectionString ca) query None of
            Inl m \<Rightarrow> Inl (''SQL Server direct query error: '' @ m)
          | Inr res \<Rightarrow> Inr res)"
  by (simp add: prepareQuery_def prepareNativeQuery_def native_all_def allWithNativeDriver_def
      allDirect_def)

section \<open>The default of \<open>trustServerCertificate\<close>\<close>

text \<open>
  C8. The claim: when \<open>trustServerCertificate\<close> is omitted the adapter behaves as if it were
  true on either backend. The code at \<open>{server: "HOST", database: "master"}\<close>: the pooled
  config has \<open>trustServerCertificate: true\<close>, but the connection string of the native
  backend, in the dual-driver and in the native-only variant, has no
  \<open>TrustServerCertificate=Yes;\<close>, which it has when the field is given as true.
\<close>

theorem native_string_lacks_trust_option:
  "trustServerCertificate sampleInfo = None
   \<and> connectionString (constructor True sampleInfo)
       = ''Driver={ODBC Driver 17 for SQL Server};Server=HOST;Database=master;Trusted_Connection=Yes;''
   \<and> n_connectionString (native_constructor sampleInfo)
       = ''Driver={ODBC Driver 17 for SQL Server};Server=HOST;Database=master;Trusted_Connection=Yes;''
   \<and> connectionString (constructor True (sampleInfo\<lparr>trustServerCertificate := Some True\<rparr>))
       = ''Driver={ODBC Driver 17 for SQL Server};Server=HOST;Database=master;Trusted_Connection=Yes;TrustServerCertificate=Yes;''
   \<and> map_option (\<lambda>c. getProp (cfg_options c) ''trustServerCertificate'')
         (config (constructor False sampleInfo)) = Some (JBool True)"
  by (simp add: sampleInfo_def constructor_def native_constructor_def selectDriver_def
      prepareConnectionString_def driverVersionOrDefault_def poolConfig_def poolOptions_def
      parseServer_def includesChar_def backslash_def addAuthentication_def getProp_def)

section \<open>The result of \<open>run\<close>\<close>

lemma isInsert_update: "\<not> isInsert ''UPDATE t SET a = 1''"
  by (simp add: isInsert_def startsWith_def toUpperCase_def toUpperChar_def trim_def
      isWhiteSpace_def)

lemma isInsert_insert: "isInsert ''insert into t (a) values (?)''"
  by (simp add: isInsert_def startsWith_def toUpperCase_def toUpperChar_def trim_def
      isWhiteSpace_def)

lemma isInsert_tab: "isInsert tabInsert"
  by (simp add: tabInsert_def isInsert_def startsWith_def toUpperCase_def toUpperChar_def
      trim_def isWhiteSpace_def)

lemma isInsert_nbsp: "isInsert (CHR 0xA0 # ''INSERT INTO t DEFAULT VALUES'')"
  by (simp add: isInsert_def startsWith_def toUpperCase_def toUpperChar_def trim_def
      isWhiteSpace_def)

lemma queryType_tab: "queryType tabInsert = ''INSERT'' @ [CHR 0x09] @ ''INTO''"
  by (simp add: tabInsert_def queryType_def toUpperCase_def toUpperChar_def trim_def
      isWhiteSpace_def)

lemma runWithMssql_changes:
  assumes "runWithMssql drv a query params = Inr r"
  shows "(\<not> isInsert query \<longrightarrow> lastID r = 0 \<and> changes r = 0)
         \<and> (changes r = 0 \<or> changes r = 1)
         \<and> (changes r = 1 \<longrightarrow> isInsert query \<and> 0 < lastID r)"
  using assms
  by (auto simp add: runWithMssql_def getAffectedRows_def Let_def
      split: option.splits sum.splits if_splits)

lemma runWithNativeDriver_changes:
  assumes "runWithNativeDriver drv a query params = Inr r"
  shows "(\<not> isInsert query \<longrightarrow> lastID r = 0
            \<and> (\<exists>res. msnodesqlv8_query drv (connectionString a) query (Some params) = Inr res
                      \<and> changes r = resultChanges res))
         \<and> (isInsert query \<longrightarrow> changes r = (if 0 < lastID r then 1 else 0))"
  using assms
  by (auto simp add: runWithNativeDriver_def prepareNativeQuery_def Let_def
      split: sum.splits if_splits)

text \<open>
  C2, as the claim states it, fails on the native backend: for a statement that is not an
  \<open>INSERT\<close> the callback takes \<open>changes\<close> from the driver's answer when that is a number
  or carries \<open>rowsAffected\<close>. An \<open>UPDATE\<close> that the driver answers with the number 3
  resolves with \<open>changes\<close> 3.
\<close>

theorem run_native_update_counterexample:
  "\<not> isInsert ''UPDATE t SET a = 1''
   \<and> dual_run (stubDrivers (Inl []) (Inl []) (\<lambda>_. Inr (RNumber 3))) (constructor True sampleInfo)
        ''UPDATE t SET a = 1'' [] = Inr \<lparr>changes = 3, lastID = 0\<rparr>"
  by (simp add: isInsert_update dual_run_def runWithNativeDriver_def prepareNativeQuery_def
      constructor_def selectDriver_def stubDrivers_def Let_def)

text \<open>
  C2, amended. A \<open>run\<close> that resolves for a statement that is not an \<open>INSERT\<close> has
  \<open>lastID\<close> 0 on both backends; its \<open>changes\<close> is 0 on the pooled backend, and on the native
  backend the count the driver reports (its numeric answer or its \<open>rowsAffected\<close>), 0 when it
  reports none. On the pooled backend, and for an \<open>INSERT\<close> on the native one, \<open>changes\<close> is
  0 or 1, and 1 only for an \<open>INSERT\<close> with \<open>lastID > 0\<close>.
\<close>

theorem run_changes_by_backend:
  assumes "dual_run drv a query params = Inr r"
  shows "(\<not> isInsert query \<longrightarrow> lastID r = 0)
     \<and> (\<not> isInsert query \<and> \<not> useNativeDriver a \<longrightarrow> changes r = 0)
     \<and> (\<not> isInsert query \<and> useNativeDriver a \<longrightarrow>
          (\<exists>res. msnodesqlv8_query drv (connectionString a) query (Some params) = Inr res
                 \<and> changes r = resultChanges res))
     \<and> (isInsert query \<or> \<not> useNativeDriver a \<longrightarrow>
          (changes r = 0 \<or> changes r = 1) \<and> (changes r = 1 \<longrightarrow> isInsert query \<and> 0 < lastID r))"
proof (cases "useNativeDriver a")
  case True
  with assms have "runWithNativeDriver drv a query params = Inr r"
    by (simp add: dual_run_def)
  from runWithNativeDriver_changes [OF this] True show ?thesis
    by (auto split: if_splits)
next
  case False
  with assms have "runWithMssql drv a query params = Inr r"
    by (simp add: dual_run_def)
  from runWithMssql_changes [OF this] False show ?thesis
    by auto
qed

theorem run_changes_by_backend_witness:
  "dual_run (stubDrivers (Inl []) (Inr \<lparr>recordset = None, result_output = []\<rparr>) (\<lambda>_. Inl []))
       ((constructor False sampleInfo)\<lparr>pool := Some (Pool 1)\<rparr>) ''UPDATE t SET a = 1'' []
     = Inr \<lparr>changes = 0, lastID = 0\<rparr>
   \<and> \<not> isInsert ''UPDATE t SET a = 1''
   \<and> \<not> useNativeDriver ((constructor False sampleInfo)\<lparr>pool := Some (Pool 1)\<rparr>)
   \<and> lastID \<lparr>changes = 0, lastID = 0\<rparr> = 0
   \<and> changes \<lparr>changes = 0, lastID = 0\<rparr> = 0
   \<and> dual_run (stubDrivers (Inl []) (Inl []) (\<lambda>_. Inr (RArray [[(''LastID'', CNum 7)]])))
       (constructor True sampleInfo) ''insert into t (a) values (?)'' [JNum 1]
     = Inr \<lparr>changes = 1, lastID = 7\<rparr>
   \<and> isInsert ''insert into t (a) values (?)''
   \<and> 0 < lastID \<lparr>changes = 1, lastID = 7\<rparr>"
proof -
  have u: "dual_run (stubDrivers (Inl []) (Inr \<lparr>recordset = None, result_output = []\<rparr>) (\<lambda>_. Inl []))
       ((constructor False sampleInfo)\<lparr>pool := Some (Pool 1)\<rparr>) ''UPDATE t SET a = 1'' []
     = Inr \<lparr>changes = 0, lastID = 0\<rparr>"
    by (simp add: isInsert_update dual_run_def runWithMssql_def getAffectedRows_def
        constructor_def selectDriver_def stubDrivers_def sampleInfo_def Let_def)
  have i: "dual_run (stubDrivers (Inl []) (Inl []) (\<lambda>_. Inr (RArray [[(''LastID'', CNum 7)]])))
       (constructor True sampleInfo) ''insert into t (a) values (?)'' [JNum 1]
     = Inr \<lparr>changes = 1, lastID = 7\<rparr>"
    by (simp add: isInsert_insert dual_run_def runWithNativeDriver_def prepareNativeQuery_def
        extractLastID_def constructor_def selectDriver_def stubDrivers_def Let_def)
  show ?thesis
    using run_changes_by_backend [OF u] run_changes_by_backend [OF i] u i
    by (simp add: isInsert_update isInsert_insert constructor_def selectDriver_def
        sampleInfo_def Let_def)
qed

section \<open>The identity value of an \<open>INSERT\<close>\<close>

text \<open>
  What holds of the claim C3. On the native backend the identity value is read from the
  final element of the results; a positive value gives that \<open>lastID\<close> and \<open>changes\<close> 1, an
  absent or NULL one gives \<open>lastID\<close> 0. On the pooled backend it is read from the output
  parameter, and \<open>changes\<close> is 1 when moreover the first word of the statement, up to the
  first space, is \<open>INSERT\<close>.
\<close>

lemma runWithNativeDriver_identity:
  assumes "isInsert query"
    and "msnodesqlv8_query drv (connectionString a)
           (query @ ''; SELECT SCOPE_IDENTITY() AS LastID'') (Some params) = Inr (RArray rows)"
    and "rows \<noteq> []"
  shows "map_of (last rows) ''LastID'' = Some (CNum v) \<and> 0 < v \<longrightarrow>
           runWithNativeDriver drv a query params = Inr \<lparr>changes = 1, lastID = v\<rparr>"
    and "map_of (last rows) ''LastID'' = None \<or> map_of (last rows) ''LastID'' = Some CNull \<longrightarrow>
           runWithNativeDriver drv a query params = Inr \<lparr>changes = 0, lastID = 0\<rparr>"
  using assms
  by (auto simp add: runWithNativeDriver_def prepareNativeQuery_def extractLastID_def Let_def)

lemma runWithMssql_identity:
  assumes "isInsert query"
    and "pool a = Some p"
    and "pool_query drv p (request_output ''insertedId'' (bindParams params newRequest))
           (replacePlaceholders query @ ''; SELECT @insertedId = SCOPE_IDENTITY();'') = Inr result"
  shows "map_of (result_output result) ''insertedId'' = Some (CNum v) \<and> 0 < v
           \<and> queryType query = ''INSERT'' \<longrightarrow>
           runWithMssql drv a query params = Inr \<lparr>changes = 1, lastID = v\<rparr>"
    and "map_of (result_output result) ''insertedId'' = None
           \<or> map_of (result_output result) ''insertedId'' = Some CNull \<longrightarrow>
           runWithMssql drv a query params = Inr \<lparr>changes = 0, lastID = 0\<rparr>"
  using assms
  by (auto simp add: runWithMssql_def insertedIdOrZero_def getAffectedRows_def Let_def)

text \<open>
  C3. The claim: every statement whose trimmed text starts with \<open>INSERT\<close> resolves with
  \<open>lastID > 0\<close> and \<open>changes == 1\<close> when the backend returns an identity value. The code
  at an \<open>INSERT\<close> whose keyword is followed by a tab, the backend returning the identity
  value 5: the pooled backend resolves with \<open>lastID\<close> 5 and \<open>changes\<close> 0, because
  \<open>getAffectedRows\<close> compares the text up to the first space with \<open>INSERT\<close>; the native
  backend resolves with \<open>changes\<close> 1.
\<close>

theorem runWithMssql_insert_tab:
  "isInsert tabInsert
   \<and> runWithMssql
        (stubDrivers (Inr (Pool 1))
           (Inr \<lparr>recordset = None, result_output = [(''insertedId'', CNum 5)]\<rparr>)
           (\<lambda>_. Inr (RArray [[(''LastID'', CNum 5)]])))
        ((constructor False sampleInfo)\<lparr>pool := Some (Pool 1)\<rparr>) tabInsert []
      = Inr \<lparr>changes = 0, lastID = 5\<rparr>
   \<and> runWithNativeDriver
        (stubDrivers (Inr (Pool 1))
           (Inr \<lparr>recordset = None, result_output = [(''insertedId'', CNum 5)]\<rparr>)
           (\<lambda>_. Inr (RArray [[(''LastID'', CNum 5)]])))
        (constructor True sampleInfo) tabInsert []
      = Inr \<lparr>changes = 1, lastID = 5\<rparr>"
  by (simp add: isInsert_tab queryType_tab runWithMssql_def runWithNativeDriver_def
      prepareNativeQuery_def getAffectedRows_def insertedIdOrZero_def extractLastID_def
      stubDrivers_def Let_def)

section \<open>Queries after \<open>close\<close>\<close>

lemma fallenBack_eq:
  "fallenBack = (cjs_constructor sampleInfo)\<lparr>usingDirectConnection := True\<rparr>"
  by (simp add: fallenBack_def poolDown_def cjs_init_def connectWithMssql_def
      connectWithMsnodesqlv8_def stubDrivers_def Let_def)

lemma pooledReady_eq:
  "pooledReady = (constructor False sampleInfo)\<lparr>pool := Some (Pool 1)\<rparr>"
  by (simp add: pooledReady_def poolUp_def dual_init_def constructor_def selectDriver_def
      sampleInfo_def stubDrivers_def Let_def)

lemma pooledReady_fields: "pool pooledReady = Some (Pool 1)" "\<not> useNativeDriver pooledReady"
  by (simp_all add: pooledReady_eq constructor_def selectDriver_def sampleInfo_def Let_def)

lemma fallenBack_fields: "cjs_pool fallenBack = None" "usingDirectConnection fallenBack"
  by (simp_all add: fallenBack_eq cjs_constructor_def)

lemma dual_close_pooled:
  assumes "dual_close drv a = (Inr (), a')" and "\<not> useNativeDriver a"
  shows "pool a' = None \<and> \<not> useNativeDriver a'"
proof (cases "pool a")
  case None
  with assms show ?thesis by (simp add: dual_close_def)
next
  case (Some p)
  with assms show ?thesis
    by (cases "pool_close drv p") (auto simp add: dual_close_def)
qed

lemma cjs_close_cleared:
  assumes "cjs_close drv ca = (Inr (), ca')"
  shows "cjs_pool ca' = None \<and> \<not> usingDirectConnection ca'"
proof (cases "cjs_pool ca")
  case None
  with assms show ?thesis by (auto simp add: cjs_close_def)
next
  case (Some p)
  with assms show ?thesis
    by (cases "pool_close drv p") (auto simp add: cjs_close_def)
qed

lemma pooled_uninitialized:
  assumes "pool a = None" and "\<not> useNativeDriver a"
  shows "dual_all drv a query params = Inl ''Database not initialized''"
    and "dual_run drv a query params = Inl ''Database not initialized''"
    and "dual_exec drv a query = Inl ''Database not initialized''"
  using assms
  by (simp_all add: dual_all_def dual_run_def dual_exec_def allWithMssql_def runWithMssql_def
      execWithMssql_def)

lemma close_pooledReady:
  "dual_close poolUp pooledReady = (Inr (), pooledReady\<lparr>pool := None\<rparr>)"
  by (simp add: dual_close_def pooledReady_fields poolUp_def stubDrivers_def)

lemma close_fallenBack:
  "cjs_close poolDown fallenBack = (Inr (), fallenBack\<lparr>usingDirectConnection := False\<rparr>)"
  by (simp add: cjs_close_def fallenBack_fields)

lemma native_sample: "useNativeDriver (constructor True sampleInfo)"
  by (simp add: constructor_def selectDriver_def Let_def)

text \<open>
  C5, as the claim states it, fails in the chained-fallback variant: \<open>close\<close> clears the
  flag of the direct connection, so an adapter that fell back to the direct backend answers
  \<open>all\<close> before \<open>close\<close> and rejects it with \<open>Database not initialized\<close> after.
\<close>

theorem cjs_direct_after_close:
  "usingDirectConnection fallenBack
   \<and> cjs_all poolDown fallenBack ''SELECT 1 AS V'' [] = Inr (RArray [])
   \<and> fst (cjs_close poolDown fallenBack) = Inr ()
   \<and> cjs_all poolDown (snd (cjs_close poolDown fallenBack)) ''SELECT 1 AS V'' []
       = Inl ''Database not initialized''"
  by (simp add: fallenBack_fields cjs_close_def cjs_all_def allDirect_def poolDown_def
      stubDrivers_def)

text \<open>
  C5, amended. In the dual-driver variant, after a \<open>close\<close> that completes, \<open>all\<close>, \<open>run\<close>
  and \<open>exec\<close> on the pooled backend reject with \<open>Database not initialized\<close>, and on the
  native backend \<open>close\<close> completes and leaves the adapter as it was, as in the native-only
  variant, so every method answers as before. In the chained-fallback variant, after a
  \<open>close\<close> that completes, \<open>all\<close> rejects with \<open>Database not initialized\<close> whichever backend
  was in use.
\<close>

theorem close_then_query:
  "(dual_close drv a = (Inr (), a') \<and> \<not> useNativeDriver a \<longrightarrow>
      dual_all drv' a' query params = Inl ''Database not initialized''
      \<and> dual_run drv' a' query params = Inl ''Database not initialized''
      \<and> dual_exec drv' a' query = Inl ''Database not initialized'')
   \<and> (useNativeDriver a \<longrightarrow> dual_close drv a = (Inr (), a))
   \<and> native_close drv na = (Inr (), na)
   \<and> (cjs_close drv ca = (Inr (), ca') \<longrightarrow>
      cjs_all drv' ca' query params = Inl ''Database not initialized'')"
proof (intro conjI impI)
  assume h: "dual_close drv a = (Inr (), a') \<and> \<not> useNativeDriver a"
  then have c: "pool a' = None" "\<not> useNativeDriver a'"
    using dual_close_pooled [of drv a a'] by simp_all
  show "dual_all drv' a' query params = Inl ''Database not initialized''"
    using c by (rule pooled_uninitialized)
  show "dual_run drv' a' query params = Inl ''Database not initialized''"
    using c by (rule pooled_uninitialized)
  show "dual_exec drv' a' query = Inl ''Database not initialized''"
    using c by (rule pooled_uninitialized)
next
  assume "useNativeDriver a"
  then show "dual_close drv a = (Inr (), a)" by (simp add: dual_close_def)
next
  show "native_close drv na = (Inr (), na)" by (simp add: native_close_def)
next
  assume "cjs_close drv ca = (Inr (), ca')"
  then have "cjs_pool ca' = None \<and> \<not> usingDirectConnection ca'"
    by (rule cjs_close_cleared)
  then show "cjs_all drv' ca' query params = Inl ''Database not initialized''"
    by (simp add: cjs_all_def)
qed

theorem close_then_query_witness:
  "dual_close poolUp pooledReady = (Inr (), pooledReady\<lparr>pool := None\<rparr>)
   \<and> \<not> useNativeDriver pooledReady
   \<and> dual_all poolUp (pooledReady\<lparr>pool := None\<rparr>) ''SELECT 1 AS V'' []
       = Inl ''Database not initialized''
   \<and> dual_run poolUp (pooledReady\<lparr>pool := None\<rparr>) ''SELECT 1 AS V'' []
       = Inl ''Database not initialized''
   \<and> dual_exec poolUp (pooledReady\<lparr>pool := None\<rparr>) ''SELECT 1 AS V''
       = Inl ''Database not initialized''
   \<and> useNativeDriver (constructor True sampleInfo)
   \<and> dual_close poolUp (constructor True sampleInfo) = (Inr (), constructor True sampleInfo)
   \<and> cjs_close poolDown fallenBack = (Inr (), fallenBack\<lparr>usingDirectConnection := False\<rparr>)
   \<and> cjs_all poolDown (fallenBack\<lparr>usingDirectConnection := False\<rparr>) ''SELECT 1 AS V'' []
       = Inl ''Database not initialized''"
  using close_then_query [where drv = poolUp and a = pooledReady
      and a' = "pooledReady\<lparr>pool := None\<rparr>" and drv' = poolUp
      and query = "''SELECT 1 AS V''" and params = "[]"]
    close_then_query [where drv = poolUp and a = "constructor True sampleInfo"]
    close_then_query [where drv = poolDown and ca = fallenBack
      and ca' = "fallenBack\<lparr>usingDirectConnection := False\<rparr>" and drv' = poolDown
      and query = "''SELECT 1 AS V''" and params = "[]"]
    close_pooledReady close_fallenBack native_sample pooledReady_fields
  by simp

section \<open>The choice of the backend\<close>

lemma dual_init_fields:
  "useNativeDriver (snd (dual_init drv a)) = useNativeDriver a
   \<and> (useNativeDriver a \<longrightarrow> pool (snd (dual_init drv a)) = pool a)"
proof (cases "useNativeDriver a")
  case True
  then show ?thesis
    by (cases "testConnection drv a") (simp_all add: dual_init_def)
next
  case False
  then show ?thesis
    by (cases "sql_connect drv (config a)") (simp_all add: dual_init_def)
qed

lemma dual_close_fields:
  "useNativeDriver (snd (dual_close drv a)) = useNativeDriver a
   \<and> (useNativeDriver a \<longrightarrow> pool (snd (dual_close drv a)) = pool a)"
proof (cases "pool a")
  case None
  then show ?thesis by (simp add: dual_close_def)
next
  case (Some p)
  then show ?thesis
    by (cases "pool_close drv p") (simp_all add: dual_close_def)
qed

lemma dual_step_fields:
  "useNativeDriver (dual_step x a) = useNativeDriver a
   \<and> (useNativeDriver a \<longrightarrow> pool (dual_step x a) = pool a)"
proof (cases x)
  case (Pair drv c)
  then show ?thesis
    using dual_init_fields [of drv a] dual_close_fields [of drv a]
    by (cases c) simp_all
qed

lemma fold_dual_step:
  "useNativeDriver (fold dual_step history a) = useNativeDriver a
   \<and> (useNativeDriver a \<longrightarrow> pool (fold dual_step history a) = pool a)"
proof (induction history arbitrary: a)
  case Nil
  then show ?case by simp
next
  case (Cons x xs)
  show ?case
    using Cons.IH [of "dual_step x a"] dual_step_fields [of x a]
    by simp
qed

lemma cjs_fresh_fields:
  "cjs_pool (cjs_constructor sampleInfo) = None"
  "\<not> usingDirectConnection (cjs_constructor sampleInfo)"
  by (simp_all add: cjs_constructor_def)

text \<open>
  An \<open>init\<close> of the chained-fallback variant on an adapter that holds no pool and has
  no direct flag: what it leaves, by the answers of the two drivers.
\<close>

lemma cjs_init_inactive:
  assumes "cjs_pool ca = None" and "\<not> usingDirectConnection ca"
  shows "sql_connect drv (Some (cjs_config ca)) = Inr p \<longrightarrow>
           cjs_pool (fst (snd (cjs_init drv ca))) = Some p
           \<and> \<not> usingDirectConnection (fst (snd (cjs_init drv ca)))"
    and "sql_connect drv (Some (cjs_config ca)) = Inl e
         \<and> msnodesqlv8_query drv (directConnectionString ca) ''SELECT @@VERSION AS Version'' None
             = Inr res \<longrightarrow>
           cjs_pool (fst (snd (cjs_init drv ca))) = None
           \<and> usingDirectConnection (fst (snd (cjs_init drv ca)))"
    and "sql_connect drv (Some (cjs_config ca)) = Inl e
         \<and> msnodesqlv8_query drv (directConnectionString ca) ''SELECT @@VERSION AS Version'' None
             = Inl m \<longrightarrow>
           cjs_pool (fst (snd (cjs_init drv ca))) = None
           \<and> \<not> usingDirectConnection (fst (snd (cjs_init drv ca)))"
  using assms
  by (simp_all add: cjs_init_def connectWithMssql_def connectWithMsnodesqlv8_def Let_def)

text \<open>
  C6, as the claim states it, fails in the chained-fallback variant: its constructor selects
  no backend. \<open>init\<close> selects the direct backend when the pooled connection fails and the
  pooled one when it succeeds, and \<open>close\<close> clears the selection. Nor is at most one
  backend active there at any time: a second \<open>init\<close>, on an adapter that fell back, whose
  pooled connection now succeeds leaves the pool open and the direct flag set.
\<close>

theorem cjs_backend_set_by_init:
  "\<not> usingDirectConnection (cjs_constructor sampleInfo)
   \<and> cjs_pool (cjs_constructor sampleInfo) = None
   \<and> usingDirectConnection (fst (snd (cjs_init poolDown (cjs_constructor sampleInfo))))
   \<and> cjs_pool (fst (snd (cjs_init poolDown (cjs_constructor sampleInfo)))) = None
   \<and> \<not> usingDirectConnection (fst (snd (cjs_init poolUp (cjs_constructor sampleInfo))))
   \<and> cjs_pool (fst (snd (cjs_init poolUp (cjs_constructor sampleInfo)))) = Some (Pool 1)
   \<and> \<not> usingDirectConnection (snd (cjs_close poolDown fallenBack))
   \<and> cjs_pool (fst (snd (cjs_init poolUp fallenBack))) = Some (Pool 1)
   \<and> usingDirectConnection (fst (snd (cjs_init poolUp fallenBack)))"
  by (simp add: fallenBack_fields cjs_init_def connectWithMssql_def connectWithMsnodesqlv8_def
      cjs_close_def cjs_constructor_def poolDown_def poolUp_def stubDrivers_def Let_def)

text \<open>
  C6, amended. In the dual-driver variant the backend is chosen once, in the constructor
  (native when the driver option names it or the native module is loaded, else pooled), and
  no history of \<open>init\<close>, \<open>all\<close>, \<open>run\<close>, \<open>exec\<close> and \<open>close\<close> changes the choice; while
  the native backend is chosen the adapter never holds a pool, so at most one backend is
  active. In the chained-fallback variant the constructor leaves both backends inactive; an
  \<open>init\<close> on an adapter with both inactive activates at most one, the pooled backend alone
  when the pooled connection succeeds, else the direct backend alone when its probe
  succeeds, else none; and a \<open>close\<close> that completes leaves both inactive.
\<close>

theorem backend_fixed_at_construction:
  "useNativeDriver (dual_steps history (constructor moduleLoaded ci)) = selectDriver moduleLoaded ci
   \<and> (selectDriver moduleLoaded ci \<longrightarrow>
        pool (dual_steps history (constructor moduleLoaded ci)) = None)
   \<and> cjs_pool (cjs_constructor ci) = None
   \<and> \<not> usingDirectConnection (cjs_constructor ci)
   \<and> (cjs_close drv ca = (Inr (), ca') \<longrightarrow>
        cjs_pool ca' = None \<and> \<not> usingDirectConnection ca')
   \<and> (cjs_pool ia = None \<and> \<not> usingDirectConnection ia
        \<and> sql_connect drv (Some (cjs_config ia)) = Inr p \<longrightarrow>
        cjs_pool (fst (snd (cjs_init drv ia))) = Some p
        \<and> \<not> usingDirectConnection (fst (snd (cjs_init drv ia))))
   \<and> (cjs_pool ia = None \<and> \<not> usingDirectConnection ia
        \<and> sql_connect drv (Some (cjs_config ia)) = Inl e
        \<and> msnodesqlv8_query drv (directConnectionString ia) ''SELECT @@VERSION AS Version'' None
            = Inr res \<longrightarrow>
        cjs_pool (fst (snd (cjs_init drv ia))) = None
        \<and> usingDirectConnection (fst (snd (cjs_init drv ia))))
   \<and> (cjs_pool ia = None \<and> \<not> usingDirectConnection ia
        \<and> sql_connect drv (Some (cjs_config ia)) = Inl e
        \<and> msnodesqlv8_query drv (directConnectionString ia) ''SELECT @@VERSION AS Version'' None
            = Inl m \<longrightarrow>
        cjs_pool (fst (snd (cjs_init drv ia))) = None
        \<and> \<not> usingDirectConnection (fst (snd (cjs_init drv ia))))"
proof (intro conjI)
  show "useNativeDriver (dual_steps history (constructor moduleLoaded ci))
          = selectDriver moduleLoaded ci"
    using fold_dual_step [of history "constructor moduleLoaded ci"]
    by (simp add: dual_steps_def constructor_def Let_def)
  show "selectDriver moduleLoaded ci \<longrightarrow>
          pool (dual_steps history (constructor moduleLoaded ci)) = None"
    using fold_dual_step [of history "constructor moduleLoaded ci"]
    by (simp add: dual_steps_def constructor_def Let_def)
  show "cjs_pool (cjs_constructor ci) = None"
    by (simp add: cjs_constructor_def)
  show "\<not> usingDirectConnection (cjs_constructor ci)"
    by (simp add: cjs_constructor_def)
  show "cjs_close drv ca = (Inr (), ca') \<longrightarrow>
          cjs_pool ca' = None \<and> \<not> usingDirectConnection ca'"
    using cjs_close_cleared [of drv ca ca'] by simp
  show "cjs_pool ia = None \<and> \<not> usingDirectConnection ia
          \<and> sql_connect drv (Some (cjs_config ia)) = Inr p \<longrightarrow>
        cjs_pool (fst (snd (cjs_init drv ia))) = Some p
          \<and> \<not> usingDirectConnection (fst (snd (cjs_init drv ia)))"
    using cjs_init_inactive(1) [of ia drv p] by simp
  show "cjs_pool ia = None \<and> \<not> usingDirectConnection ia
          \<and> sql_connect drv (Some (cjs_config ia)) = Inl e
          \<and> msnodesqlv8_query drv (directConnectionString ia) ''SELECT @@VERSION AS Version'' None
              = Inr res \<longrightarrow>
        cjs_pool (fst (snd (cjs_init drv ia))) = None
          \<and> usingDirectConnection (fst (snd (cjs_init drv ia)))"
    using cjs_init_inactive(2) [of ia drv e res] by simp
  show "cjs_pool ia = None \<and> \<not> usingDirectConnection ia
          \<and> sql_connect drv (Some (cjs_config ia)) = Inl e
          \<and> msnodesqlv8_query drv (directConnectionString ia) ''SELECT @@VERSION AS Version'' None
              = Inl m \<longrightarrow>
        cjs_pool (fst (snd (cjs_init drv ia))) = None
          \<and> \<not> usingDirectConnection (fst (snd (cjs_init drv ia)))"
    using cjs_init_inactive(3) [of ia drv e m] by simp
qed

theorem backend_fixed_at_construction_witness:
  "selectDriver True sampleInfo
   \<and> useNativeDriver
       (dual_steps [(poolUp, Init), (poolUp, All ''SELECT 1 AS V'' []), (poolUp, Close)]
          (constructor True sampleInfo))
   \<and> pool
       (dual_steps [(poolUp, Init), (poolUp, All ''SELECT 1 AS V'' []), (poolUp, Close)]
          (constructor True sampleInfo)) = None
   \<and> \<not> selectDriver False sampleInfo
   \<and> \<not> useNativeDriver
       (dual_steps [(poolUp, Init), (poolUp, Run ''UPDATE t SET a = 1'' []), (poolUp, Close)]
          (constructor False sampleInfo))
   \<and> cjs_close poolDown fallenBack = (Inr (), fallenBack\<lparr>usingDirectConnection := False\<rparr>)
   \<and> cjs_pool (fallenBack\<lparr>usingDirectConnection := False\<rparr>) = None
   \<and> \<not> usingDirectConnection (fallenBack\<lparr>usingDirectConnection := False\<rparr>)
   \<and> cjs_pool (cjs_constructor sampleInfo) = None
   \<and> \<not> usingDirectConnection (cjs_constructor sampleInfo)
   \<and> sql_connect poolUp (Some (cjs_config (cjs_constructor sampleInfo))) = Inr (Pool 1)
   \<and> cjs_pool (fst (snd (cjs_init poolUp (cjs_constructor sampleInfo)))) = Some (Pool 1)
   \<and> \<not> usingDirectConnection (fst (snd (cjs_init poolUp (cjs_constructor sampleInfo))))
   \<and> sql_connect poolDown (Some (cjs_config (cjs_constructor sampleInfo))) = Inl ''ETIMEOUT''
   \<and> msnodesqlv8_query poolDown (directConnectionString (cjs_constructor sampleInfo))
        ''SELECT @@VERSION AS Version'' None = Inr (RArray [])
   \<and> cjs_pool (fst (snd (cjs_init poolDown (cjs_constructor sampleInfo)))) = None
   \<and> usingDirectConnection (fst (snd (cjs_init poolDown (cjs_constructor sampleInfo))))
   \<and> msnodesqlv8_query (stubDrivers (Inl ''ETIMEOUT'') (Inl []) (\<lambda>_. Inl ''Login failed''))
        (directConnectionString (cjs_constructor sampleInfo))
        ''SELECT @@VERSION AS Version'' None = Inl ''Login failed''
   \<and> cjs_pool (fst (snd (cjs_init
        (stubDrivers (Inl ''ETIMEOUT'') (Inl []) (\<lambda>_. Inl ''Login failed''))
        (cjs_constructor sampleInfo)))) = None
   \<and> \<not> usingDirectConnection (fst (snd (cjs_init
        (stubDrivers (Inl ''ETIMEOUT'') (Inl []) (\<lambda>_. Inl ''Login failed''))
        (cjs_constructor sampleInfo))))"
  using backend_fixed_at_construction [where moduleLoaded = True and ci = sampleInfo
      and history = "[(poolUp, Init), (poolUp, All ''SELECT 1 AS V'' []), (poolUp, Close)]"
      and drv = poolDown and ca = fallenBack
      and ca' = "fallenBack\<lparr>usingDirectConnection := False\<rparr>"
      and ia = "cjs_constructor sampleInfo" and e = "''ETIMEOUT''" and res = "RArray []"]
    backend_fixed_at_construction [where moduleLoaded = False and ci = sampleInfo
      and history = "[(poolUp, Init), (poolUp, Run ''UPDATE t SET a = 1'' []), (poolUp, Close)]"
      and drv = poolUp and ia = "cjs_constructor sampleInfo" and p = "Pool 1"]
    backend_fixed_at_construction [where
      drv = "stubDrivers (Inl ''ETIMEOUT'') (Inl []) (\<lambda>_. Inl ''Login failed'')"
      and ia = "cjs_constructor sampleInfo" and e = "''ETIMEOUT''" and m = "''Login failed''"]
    close_fallenBack cjs_fresh_fields
  by (simp add: selectDriver_def sampleInfo_def poolUp_def poolDown_def stubDrivers_def)

end
